theory Spec2Isabelle
  imports Main "HOL-Library.Word"
begin

unbundle bit_operations_syntax

section \<open>Vulkan base types and constants\<close>

text \<open>
  The layer is written against \<^verbatim>\<open>vulkan.h\<close>. Its scalar types are fixed-width
  integers; handles and pointers are 64-bit values with 0 as the null value.
  The numeric values of the enumerators below are those of the Vulkan headers.
\<close>

type_synonym u32 = "32 word"
type_synonym u64 = "64 word"
type_synonym ptr = "64 word"
type_synonym VkResult = int
type_synonym VkInstance = u64
type_synonym VkDevice = u64
type_synonym VkPhysicalDevice = u64
type_synonym VkQueue = u64
type_synonym VkFence = u64
type_synonym VkPipeline = u64
type_synonym VkPipelineCache = u64
type_synonym VkDeviceMemory = u64

definition VK_SUCCESS :: VkResult where
  "VK_SUCCESS = 0"

definition VK_ERROR_INITIALIZATION_FAILED :: VkResult where
  "VK_ERROR_INITIALIZATION_FAILED = - 3"

definition VK_MAKE_API_VERSION :: "u32 \<Rightarrow> u32 \<Rightarrow> u32 \<Rightarrow> u32 \<Rightarrow> u32" where
  "VK_MAKE_API_VERSION variant major minor patch =
     (push_bit 29 variant OR push_bit 22 major OR push_bit 12 minor OR patch)"

section \<open>layer\_init.cpp\<close>

subsection \<open>Function pointers\<close>

text \<open>
  A \<^verbatim>\<open>PFN_vkVoidFunction\<close> is either null, the address of one of the entry points
  this layer defines, or an address outside the layer (numbered).
\<close>

datatype layer_entry =
    Layer_vkCreateGraphicsPipelines
  | Layer_vkCreateComputePipelines
  | Layer_vkQueueSubmit
  | Layer_vkAllocateMemory
  | Layer_vkGetInstanceProcAddr
  | Layer_vkGetDeviceProcAddr

datatype PFN_vkVoidFunction =
    nullptr
  | layer_fn layer_entry
  | foreign_fn nat

subsection \<open>The layer identity and the dispatch data\<close>

record VkLayerProperties =
  layerName :: string
  specVersion :: u32
  implementationVersion :: u32
  description :: string

definition layer_properties :: VkLayerProperties where
  "layer_properties =
     \<lparr> layerName = ''VK_LAYER_XCLIPSE_940'',
       specVersion = VK_MAKE_API_VERSION 0 1 3 0,
       implementationVersion = 1,
       description = ''Xclipse 940 GPU Optimization Layer'' \<rparr>"

text \<open>
  \<^verbatim>\<open>LayerData\<close>: the two resolvers of the next layer; \<open>None\<close> is a null function
  pointer. A resolver maps a handle and a name to a function pointer.
\<close>

record LayerData =
  get_instance_proc_addr :: "(VkInstance \<Rightarrow> string \<Rightarrow> PFN_vkVoidFunction) option"
  get_device_proc_addr :: "(VkDevice \<Rightarrow> string \<Rightarrow> PFN_vkVoidFunction) option"

subsection \<open>strcmp\<close>

text \<open>
  A C string is modelled by the characters before its terminator. \<^verbatim>\<open>strcmp\<close>
  returns a negative, zero or positive value as the first string is less than, equal to
  or greater than the second, comparing characters as unsigned bytes.
\<close>

fun strcmp :: "string \<Rightarrow> string \<Rightarrow> int" where
  "strcmp [] [] = 0"
| "strcmp [] (b # bs) = - 1"
| "strcmp (a # as) [] = 1"
| "strcmp (a # as) (b # bs) =
     (if a = b then strcmp as bs
      else if (of_char a :: nat) < of_char b then - 1 else 1)"

subsection \<open>Proc-address resolution\<close>

definition vkGetInstanceProcAddr ::
  "LayerData \<Rightarrow> VkInstance \<Rightarrow> string \<Rightarrow> PFN_vkVoidFunction" where
  "vkGetInstanceProcAddr g_layer_data instance pName =
     (if strcmp pName ''vkCreateGraphicsPipelines'' = 0 then layer_fn Layer_vkCreateGraphicsPipelines
      else if strcmp pName ''vkCreateComputePipelines'' = 0 then layer_fn Layer_vkCreateComputePipelines
      else if strcmp pName ''vkQueueSubmit'' = 0 then layer_fn Layer_vkQueueSubmit
      else if strcmp pName ''vkAllocateMemory'' = 0 then layer_fn Layer_vkAllocateMemory
      else (case get_instance_proc_addr g_layer_data of
              Some nxt \<Rightarrow> nxt instance pName
            | None \<Rightarrow> nullptr))"

definition vkGetDeviceProcAddr ::
  "LayerData \<Rightarrow> VkDevice \<Rightarrow> string \<Rightarrow> PFN_vkVoidFunction" where
  "vkGetDeviceProcAddr g_layer_data device pName =
     (if strcmp pName ''vkCreateGraphicsPipelines'' = 0 then layer_fn Layer_vkCreateGraphicsPipelines
      else if strcmp pName ''vkCreateComputePipelines'' = 0 then layer_fn Layer_vkCreateComputePipelines
      else if strcmp pName ''vkQueueSubmit'' = 0 then layer_fn Layer_vkQueueSubmit
      else if strcmp pName ''vkAllocateMemory'' = 0 then layer_fn Layer_vkAllocateMemory
      else (case get_device_proc_addr g_layer_data of
              Some nxt \<Rightarrow> nxt device pName
            | None \<Rightarrow> nullptr))"

subsection \<open>Layer enumeration\<close>

text \<open>
  \<^verbatim>\<open>pPropertyCount\<close> is \<open>None\<close> for a null pointer and otherwise the value it points
  to; \<^verbatim>\<open>pProperties\<close> is \<open>None\<close> for a null pointer and otherwise the array of records
  that really lies behind it. The \<^verbatim>\<open>memcpy\<close> writes element 0 of that array; where the
  array has no element the write lies outside it.
\<close>

datatype fault = OutOfBoundsWrite | NullDereference

definition vkEnumerateInstanceLayerProperties ::
  "u32 option \<Rightarrow> VkLayerProperties list option \<Rightarrow>
     fault + (VkResult \<times> u32 option \<times> VkLayerProperties list option)" where
  "vkEnumerateInstanceLayerProperties pPropertyCount pProperties =
     (let pPropertyCount1 = (case pPropertyCount of None \<Rightarrow> None | Some c \<Rightarrow> Some 1) in
      case pProperties of
        None \<Rightarrow> Inr (VK_SUCCESS, pPropertyCount1, pProperties)
      | Some buf \<Rightarrow>
          (case pPropertyCount1 of
             None \<Rightarrow> Inr (VK_SUCCESS, pPropertyCount1, pProperties)
           | Some c \<Rightarrow>
               if c \<ge> 1 then
                 (case buf of
                    [] \<Rightarrow> Inl OutOfBoundsWrite
                  | old # rest \<Rightarrow> Inr (VK_SUCCESS, pPropertyCount1, Some (layer_properties # rest)))
               else Inr (VK_SUCCESS, pPropertyCount1, pProperties)))"

section \<open>Interface negotiation\<close>

definition LAYER_NEGOTIATE_INTERFACE_STRUCT :: u32 where
  "LAYER_NEGOTIATE_INTERFACE_STRUCT = 1"

record VkNegotiateLayerInterface =
  sType :: u32
  pNext :: ptr
  loaderLayerInterfaceVersion :: u32
  pfnGetInstanceProcAddr :: PFN_vkVoidFunction
  pfnGetDeviceProcAddr :: PFN_vkVoidFunction
  pfnGetPhysicalDeviceProcAddr :: PFN_vkVoidFunction

definition vkNegotiateLoaderLayerInterfaceVersion ::
  "VkNegotiateLayerInterface \<Rightarrow> VkResult \<times> VkNegotiateLayerInterface" where
  "vkNegotiateLoaderLayerInterfaceVersion pVersionStruct =
     (if sType pVersionStruct \<noteq> LAYER_NEGOTIATE_INTERFACE_STRUCT
      then (VK_ERROR_INITIALIZATION_FAILED, pVersionStruct)
      else
        let s1 = (if loaderLayerInterfaceVersion pVersionStruct \<ge> 2
                  then pVersionStruct
                         \<lparr> pfnGetInstanceProcAddr := layer_fn Layer_vkGetInstanceProcAddr,
                           pfnGetDeviceProcAddr := layer_fn Layer_vkGetDeviceProcAddr,
                           pfnGetPhysicalDeviceProcAddr := nullptr \<rparr>
                  else pVersionStruct)
        in (VK_SUCCESS, s1 \<lparr> loaderLayerInterfaceVersion := 2 \<rparr>))"

section \<open>xclipse\_wrapper.cpp: data\<close>

definition VK_FALSE :: u32 where
  "VK_FALSE = 0"

definition VK_CULL_MODE_NONE :: u32 where
  "VK_CULL_MODE_NONE = 0"

definition VK_CULL_MODE_BACK_BIT :: u32 where
  "VK_CULL_MODE_BACK_BIT = 2"

definition VK_SAMPLE_COUNT_1_BIT :: u32 where
  "VK_SAMPLE_COUNT_1_BIT = 1"

definition VK_SAMPLE_COUNT_4_BIT :: u32 where
  "VK_SAMPLE_COUNT_4_BIT = 4"

definition VK_MEMORY_PROPERTY_DEVICE_LOCAL_BIT :: u32 where
  "VK_MEMORY_PROPERTY_DEVICE_LOCAL_BIT = 1"

definition kCacheLineSize :: u32 where
  "kCacheLineSize = 64"

datatype VkPipelineBindPoint =
    VK_PIPELINE_BIND_POINT_GRAPHICS
  | VK_PIPELINE_BIND_POINT_COMPUTE

record PipelineState =
  pipeline :: VkPipeline
  usage_count :: u64
  bind_point :: VkPipelineBindPoint
  shader_stages :: u32

record VkMemoryType =
  propertyFlags :: u32
  heapIndex :: u32

record VkMemoryHeap =
  heap_size :: u64
  heap_flags :: u32

record VkPhysicalDeviceMemoryProperties =
  memoryTypeCount :: u32
  memoryTypes :: "VkMemoryType list"
  memoryHeapCount :: u32
  memoryHeaps :: "VkMemoryHeap list"

text \<open>
  Of \<^verbatim>\<open>VkPhysicalDeviceProperties\<close> the leading fields are kept; the layer stores the
  structure and never reads it.
\<close>

record VkPhysicalDeviceProperties =
  apiVersion :: u32
  driverVersion :: u32
  vendorID :: u32
  deviceID :: u32
  deviceType :: u32
  deviceName :: string

record DeviceContext =
  physical_device :: VkPhysicalDevice
  device :: VkDevice
  properties :: VkPhysicalDeviceProperties
  memory_properties :: VkPhysicalDeviceMemoryProperties

record Xclipse940Wrapper =
  pipeline_cache :: "VkPipeline \<rightharpoonup> PipelineState"
  device_context :: "DeviceContext option"
  features_initialized :: bool

text \<open>
  The global \<^verbatim>\<open>g_wrapper\<close> as default-constructed. The members' trailing
  underscores are dropped in the field names.
\<close>

definition g_wrapper :: Xclipse940Wrapper where
  "g_wrapper =
     \<lparr> pipeline_cache = Map.empty, device_context = None, features_initialized = False \<rparr>"

text \<open>
  The Vulkan structures the interceptors read. Float fields are kept as their 32-bit
  patterns; fields named alike in several structures carry the structure's initials.
\<close>

record VkPipelineRasterizationStateCreateInfo =
  rs_sType :: u32
  rs_pNext :: ptr
  rs_flags :: u32
  depthClampEnable :: u32
  rasterizerDiscardEnable :: u32
  polygonMode :: u32
  cullMode :: u32
  frontFace :: u32
  depthBiasEnable :: u32
  depthBiasConstantFactor :: u32
  depthBiasClamp :: u32
  depthBiasSlopeFactor :: u32
  lineWidth :: u32

record VkPipelineMultisampleStateCreateInfo =
  ms_sType :: u32
  ms_pNext :: ptr
  ms_flags :: u32
  rasterizationSamples :: u32
  sampleShadingEnable :: u32
  minSampleShading :: u32
  pSampleMask :: ptr
  alphaToCoverageEnable :: u32
  alphaToOneEnable :: u32

record VkGraphicsPipelineCreateInfo =
  gp_sType :: u32
  gp_pNext :: ptr
  gp_flags :: u32
  stageCount :: u32
  pStages :: ptr
  pVertexInputState :: ptr
  pInputAssemblyState :: ptr
  pTessellationState :: ptr
  pViewportState :: ptr
  pRasterizationState :: ptr
  pMultisampleState :: ptr
  pDepthStencilState :: ptr
  pColorBlendState :: ptr
  pDynamicState :: ptr
  layout :: u64
  renderPass :: u64
  subpass :: u32
  basePipelineHandle :: VkPipeline
  basePipelineIndex :: u32

record VkMemoryAllocateInfo =
  mai_sType :: u32
  mai_pNext :: ptr
  allocationSize :: u64
  memoryTypeIndex :: u32

record VkSubmitInfo =
  si_sType :: u32
  si_pNext :: ptr
  waitSemaphoreCount :: u32
  pWaitSemaphores :: ptr
  pWaitDstStageMask :: ptr
  commandBufferCount :: u32
  pCommandBuffers :: ptr
  signalSemaphoreCount :: u32
  pSignalSemaphores :: ptr

text \<open>
  The caller's memory that the graphics interceptor writes through the descriptors'
  pointers: one typed heap for each of the two structures it mutates in place. Every
  address holds a structure of either type, and the two heaps do not overlap.
\<close>

record memory =
  rasterization_at :: "ptr \<Rightarrow> VkPipelineRasterizationStateCreateInfo"
  multisample_at :: "ptr \<Rightarrow> VkPipelineMultisampleStateCreateInfo"

text \<open>
  The entry points the class calls by their Vulkan names (\<^verbatim>\<open>vkCreateGraphicsPipelines\<close>,
  \<^verbatim>\<open>vkCreateComputePipelines\<close>, \<^verbatim>\<open>vkAllocateMemory\<close>, \<^verbatim>\<open>vkQueueSubmit\<close>) stand for
  the next link of the chain. They are parameters of the model: each maps the arguments
  it receives (and, for pipeline creation, the memory the descriptors point into) to its
  result and to the contents it leaves in the output array or handle. Which definition
  these names reach in the built library is decided when it is linked and is not part of
  the model.
\<close>

type_synonym next_CreateGraphicsPipelines =
  "memory \<Rightarrow> VkDevice \<Rightarrow> VkPipelineCache \<Rightarrow> u32 \<Rightarrow> VkGraphicsPipelineCreateInfo list \<Rightarrow> ptr
     \<Rightarrow> VkPipeline list \<Rightarrow> VkResult \<times> VkPipeline list"

type_synonym next_CreateComputePipelines =
  "VkDevice \<Rightarrow> VkPipelineCache \<Rightarrow> u32 \<Rightarrow> ptr \<Rightarrow> ptr
     \<Rightarrow> VkPipeline list \<Rightarrow> VkResult \<times> VkPipeline list"

type_synonym next_AllocateMemory =
  "VkDevice \<Rightarrow> VkMemoryAllocateInfo \<Rightarrow> ptr \<Rightarrow> VkDeviceMemory \<Rightarrow> VkResult \<times> VkDeviceMemory"

type_synonym next_QueueSubmit =
  "VkQueue \<Rightarrow> u32 \<Rightarrow> VkSubmitInfo list \<Rightarrow> VkFence \<Rightarrow> VkResult"

section \<open>xclipse\_wrapper.cpp: operations\<close>

definition InitializeDeviceContext ::
  "Xclipse940Wrapper \<Rightarrow> (VkPhysicalDevice \<Rightarrow> VkPhysicalDeviceProperties)
     \<Rightarrow> (VkPhysicalDevice \<Rightarrow> VkPhysicalDeviceMemoryProperties)
     \<Rightarrow> VkPhysicalDevice \<Rightarrow> VkDevice \<Rightarrow> bool \<times> Xclipse940Wrapper" where
  "InitializeDeviceContext w vkGetPhysicalDeviceProperties vkGetPhysicalDeviceMemoryProperties
       physical_device' device' =
     (if physical_device' = 0 \<or> device' = 0 then (False, w)
      else
        (True,
         w \<lparr> device_context :=
               Some \<lparr> physical_device = physical_device',
                      device = device',
                      properties = vkGetPhysicalDeviceProperties physical_device',
                      memory_properties = vkGetPhysicalDeviceMemoryProperties physical_device' \<rparr>,
             features_initialized := True \<rparr>))"

definition OptimizeRasterizationState ::
  "VkPipelineRasterizationStateCreateInfo \<Rightarrow> VkPipelineRasterizationStateCreateInfo" where
  "OptimizeRasterizationState state =
     (let s1 = state \<lparr> depthBiasEnable := VK_FALSE \<rparr>;
          s2 = s1 \<lparr> depthClampEnable := VK_FALSE \<rparr>;
          s3 = s2 \<lparr> rasterizerDiscardEnable := VK_FALSE \<rparr>
      in if cullMode s3 = VK_CULL_MODE_NONE
         then s3 \<lparr> cullMode := VK_CULL_MODE_BACK_BIT \<rparr>
         else s3)"

text \<open>
  \<^verbatim>\<open>std::min(a, b)\<close> is \<^verbatim>\<open>(b < a) ? b : a\<close>. Its arguments here are two
  \<^verbatim>\<open>VkSampleCountFlagBits\<close> values, which \<^verbatim>\<open><\<close> compares after promotion to
  \<^verbatim>\<open>int\<close>: the comparison is signed.
\<close>

definition std_min :: "u32 \<Rightarrow> u32 \<Rightarrow> u32" where
  "std_min a b = (if b <s a then b else a)"

definition OptimizeMultisampleState ::
  "VkPipelineMultisampleStateCreateInfo \<Rightarrow> VkPipelineMultisampleStateCreateInfo" where
  "OptimizeMultisampleState state =
     (if rasterizationSamples state = VK_SAMPLE_COUNT_1_BIT then state
      else state \<lparr> rasterizationSamples :=
                      std_min (rasterizationSamples state) VK_SAMPLE_COUNT_4_BIT \<rparr>)"

text \<open>
  One iteration of the loop of \<^verbatim>\<open>CreateGraphicsPipelines\<close>: the descriptor is copied
  as it is, and the structures its two pointers lead to are rewritten in place.
\<close>

definition optimize_in_place :: "memory \<Rightarrow> VkGraphicsPipelineCreateInfo \<Rightarrow> memory" where
  "optimize_in_place mem optimized =
     (let mem1 =
            (if pRasterizationState optimized \<noteq> 0
             then mem \<lparr> rasterization_at :=
                          (rasterization_at mem)
                            (pRasterizationState optimized :=
                               OptimizeRasterizationState
                                 (rasterization_at mem (pRasterizationState optimized))) \<rparr>
             else mem)
      in if pMultisampleState optimized \<noteq> 0
         then mem1 \<lparr> multisample_at :=
                       (multisample_at mem1)
                         (pMultisampleState optimized :=
                            OptimizeMultisampleState
                              (multisample_at mem1 (pMultisampleState optimized))) \<rparr>
         else mem1)"

definition optimized_infos_loop ::
  "memory \<Rightarrow> u32 \<Rightarrow> VkGraphicsPipelineCreateInfo list
     \<Rightarrow> memory \<times> VkGraphicsPipelineCreateInfo list" where
  "optimized_infos_loop mem createInfoCount pCreateInfos =
     fold (\<lambda>i (m, optimized_infos).
             let optimized = pCreateInfos ! i
             in (optimize_in_place m optimized, optimized_infos @ [optimized]))
          [0..<unat createInfoCount] (mem, [])"

definition CachePipelines ::
  "Xclipse940Wrapper \<Rightarrow> VkPipeline list \<Rightarrow> u32 \<Rightarrow> VkPipelineBindPoint \<Rightarrow> Xclipse940Wrapper" where
  "CachePipelines w pipelines count bind_point' =
     w \<lparr> pipeline_cache :=
           fold (\<lambda>i cache.
                   cache (pipelines ! i \<mapsto>
                     \<lparr> pipeline = pipelines ! i, usage_count = 1,
                       bind_point = bind_point', shader_stages = 0 \<rparr>))
                [0..<unat count] (pipeline_cache w) \<rparr>"

definition OptimizeComputePipeline :: "Xclipse940Wrapper \<Rightarrow> VkPipeline \<Rightarrow> Xclipse940Wrapper" where
  "OptimizeComputePipeline w pipeline' =
     (case pipeline_cache w pipeline' of
        Some st \<Rightarrow>
          w \<lparr> pipeline_cache :=
                (pipeline_cache w) (pipeline' \<mapsto> st \<lparr> usage_count := usage_count st + 1 \<rparr>) \<rparr>
      | None \<Rightarrow> w)"

definition CreateGraphicsPipelines ::
  "Xclipse940Wrapper \<Rightarrow> next_CreateGraphicsPipelines \<Rightarrow> memory \<Rightarrow> VkDevice \<Rightarrow> VkPipelineCache
     \<Rightarrow> u32 \<Rightarrow> VkGraphicsPipelineCreateInfo list \<Rightarrow> ptr \<Rightarrow> VkPipeline list
     \<Rightarrow> VkResult \<times> VkPipeline list \<times> memory \<times> Xclipse940Wrapper" where
  "CreateGraphicsPipelines w vkCreateGraphicsPipelines mem device' pipelineCache createInfoCount
       pCreateInfos pAllocator pPipelines =
     (if \<not> features_initialized w then
        (let (result, pPipelines1) =
               vkCreateGraphicsPipelines mem device' pipelineCache createInfoCount
                 pCreateInfos pAllocator pPipelines
         in (result, pPipelines1, mem, w))
      else
        (let (mem1, optimized_infos) = optimized_infos_loop mem createInfoCount pCreateInfos;
             (result, pPipelines1) =
               vkCreateGraphicsPipelines mem1 device' pipelineCache createInfoCount
                 optimized_infos pAllocator pPipelines;
             w1 = (if result = VK_SUCCESS
                   then CachePipelines w pPipelines1 createInfoCount
                          VK_PIPELINE_BIND_POINT_GRAPHICS
                   else w)
         in (result, pPipelines1, mem1, w1)))"

definition CreateComputePipelines ::
  "Xclipse940Wrapper \<Rightarrow> next_CreateComputePipelines \<Rightarrow> VkDevice \<Rightarrow> VkPipelineCache
     \<Rightarrow> u32 \<Rightarrow> ptr \<Rightarrow> ptr \<Rightarrow> VkPipeline list
     \<Rightarrow> VkResult \<times> VkPipeline list \<times> Xclipse940Wrapper" where
  "CreateComputePipelines w vkCreateComputePipelines device' pipelineCache createInfoCount
       pCreateInfos pAllocator pPipelines =
     (let (result, pPipelines1) =
            vkCreateComputePipelines device' pipelineCache createInfoCount
              pCreateInfos pAllocator pPipelines
      in if result = VK_SUCCESS \<and> features_initialized w then
           (let w1 = CachePipelines w pPipelines1 createInfoCount VK_PIPELINE_BIND_POINT_COMPUTE;
                w2 = fold (\<lambda>i w'. OptimizeComputePipeline w' (pPipelines1 ! i))
                       [0..<unat createInfoCount] w1
            in (result, pPipelines1, w2))
         else (result, pPipelines1, w))"

definition OptimizeMemoryAllocation ::
  "Xclipse940Wrapper \<Rightarrow> VkMemoryAllocateInfo \<Rightarrow> fault + VkMemoryAllocateInfo" where
  "OptimizeMemoryAllocation w info =
     (let info1 = info \<lparr> allocationSize :=
                    (allocationSize info + ucast kCacheLineSize - 1)
                      AND ucast (NOT (kCacheLineSize - 1)) \<rparr>
      in case device_context w of
           None \<Rightarrow> Inl NullDereference
         | Some ctx \<Rightarrow>
             if memoryTypeIndex info1 < memoryTypeCount (memory_properties ctx) then
               (let memory_type = memoryTypes (memory_properties ctx) ! unat (memoryTypeIndex info1)
                in if propertyFlags memory_type AND VK_MEMORY_PROPERTY_DEVICE_LOCAL_BIT \<noteq> 0
                   then Inr info1
                   else Inr info1)
             else Inr info1)"

definition AllocateMemory ::
  "Xclipse940Wrapper \<Rightarrow> next_AllocateMemory \<Rightarrow> VkDevice \<Rightarrow> VkMemoryAllocateInfo \<Rightarrow> ptr
     \<Rightarrow> VkDeviceMemory \<Rightarrow> fault + (VkResult \<times> VkDeviceMemory \<times> Xclipse940Wrapper)" where
  "AllocateMemory w vkAllocateMemory device' pAllocateInfo pAllocator pMemory =
     (if \<not> features_initialized w then
        (let (result, pMemory1) = vkAllocateMemory device' pAllocateInfo pAllocator pMemory
         in Inr (result, pMemory1, w))
      else
        (case OptimizeMemoryAllocation w pAllocateInfo of
           Inl f \<Rightarrow> Inl f
         | Inr optimized_info \<Rightarrow>
             (let (result, pMemory1) = vkAllocateMemory device' optimized_info pAllocator pMemory
              in Inr (result, pMemory1, w))))"

definition IsLikelyComputeWorkload :: "VkSubmitInfo \<Rightarrow> bool" where
  "IsLikelyComputeWorkload submit = (commandBufferCount submit > 2)"

definition IsLikelyTransferWorkload :: "VkSubmitInfo \<Rightarrow> bool" where
  "IsLikelyTransferWorkload submit = (commandBufferCount submit = 1)"

text \<open>
  The three local vectors of \<^verbatim>\<open>OptimizeQueueSubmission\<close> (compute, graphics,
  transfer) hold the addresses \<^verbatim>\<open>&submits[i]\<close>, here the indices \<open>i\<close>. The function
  returns nothing and the vectors die with it; the model returns them so that the
  classification can be spoken about.
\<close>

definition OptimizeQueueSubmission ::
  "VkSubmitInfo list \<Rightarrow> u32 \<Rightarrow> nat list \<times> nat list \<times> nat list" where
  "OptimizeQueueSubmission submits count =
     fold (\<lambda>i (compute_submits, graphics_submits, transfer_submits).
             if IsLikelyComputeWorkload (submits ! i)
             then (compute_submits @ [i], graphics_submits, transfer_submits)
             else if IsLikelyTransferWorkload (submits ! i)
             then (compute_submits, graphics_submits, transfer_submits @ [i])
             else (compute_submits, graphics_submits @ [i], transfer_submits))
          [0..<unat count] ([], [], [])"

definition QueueSubmit ::
  "Xclipse940Wrapper \<Rightarrow> next_QueueSubmit \<Rightarrow> VkQueue \<Rightarrow> u32 \<Rightarrow> VkSubmitInfo list \<Rightarrow> VkFence
     \<Rightarrow> VkResult \<times> Xclipse940Wrapper" where
  "QueueSubmit w vkQueueSubmit queue submitCount pSubmits fence =
     (let classified =
            (if features_initialized w
             then Some (OptimizeQueueSubmission pSubmits submitCount)
             else None)
      in (vkQueueSubmit queue submitCount pSubmits fence, w))"

section \<open>Sample inputs\<close>

text \<open>Concrete inputs at which the theorems below are instantiated.\<close>

definition VK_ERROR_OUT_OF_DEVICE_MEMORY :: VkResult where
  "VK_ERROR_OUT_OF_DEVICE_MEMORY = - 2"

definition sample_negotiation :: "u32 \<Rightarrow> u32 \<Rightarrow> VkNegotiateLayerInterface" where
  "sample_negotiation tag version =
     \<lparr> sType = tag, pNext = 0, loaderLayerInterfaceVersion = version,
       pfnGetInstanceProcAddr = foreign_fn 1, pfnGetDeviceProcAddr = foreign_fn 2,
       pfnGetPhysicalDeviceProcAddr = foreign_fn 3 \<rparr>"

definition sample_layer_data :: LayerData where
  "sample_layer_data =
     \<lparr> get_instance_proc_addr = Some (\<lambda>instance pName. foreign_fn (length pName)),
       get_device_proc_addr = Some (\<lambda>device pName. foreign_fn (100 + length pName)) \<rparr>"

definition empty_layer_data :: LayerData where
  "empty_layer_data = \<lparr> get_instance_proc_addr = None, get_device_proc_addr = None \<rparr>"

definition sample_properties :: VkPhysicalDeviceProperties where
  "sample_properties =
     \<lparr> apiVersion = VK_MAKE_API_VERSION 0 1 3 0, driverVersion = 1, vendorID = 5197,
       deviceID = 940, deviceType = 1, deviceName = ''Xclipse 940'' \<rparr>"

definition sample_memory_properties :: VkPhysicalDeviceMemoryProperties where
  "sample_memory_properties =
     \<lparr> memoryTypeCount = 2,
       memoryTypes = [\<lparr> propertyFlags = 1, heapIndex = 0 \<rparr>, \<lparr> propertyFlags = 6, heapIndex = 0 \<rparr>],
       memoryHeapCount = 1,
       memoryHeaps = [\<lparr> heap_size = 8589934592, heap_flags = 1 \<rparr>] \<rparr>"

definition initialized_wrapper :: Xclipse940Wrapper where
  "initialized_wrapper =
     snd (InitializeDeviceContext g_wrapper (\<lambda>pd. sample_properties)
            (\<lambda>pd. sample_memory_properties) 1 2)"

definition sample_rasterization :: VkPipelineRasterizationStateCreateInfo where
  "sample_rasterization =
     \<lparr> rs_sType = 23, rs_pNext = 0, rs_flags = 0, depthClampEnable = 1,
       rasterizerDiscardEnable = 1, polygonMode = 0, cullMode = 0, frontFace = 1,
       depthBiasEnable = 1, depthBiasConstantFactor = 0, depthBiasClamp = 0,
       depthBiasSlopeFactor = 0, lineWidth = 1065353216 \<rparr>"

definition sample_multisample :: VkPipelineMultisampleStateCreateInfo where
  "sample_multisample =
     \<lparr> ms_sType = 24, ms_pNext = 0, ms_flags = 0, rasterizationSamples = 8,
       sampleShadingEnable = 0, minSampleShading = 0, pSampleMask = 0,
       alphaToCoverageEnable = 0, alphaToOneEnable = 0 \<rparr>"

definition sample_memory :: memory where
  "sample_memory =
     \<lparr> rasterization_at = (\<lambda>p. sample_rasterization),
       multisample_at = (\<lambda>p. sample_multisample) \<rparr>"

definition sample_create_info :: "ptr \<Rightarrow> ptr \<Rightarrow> VkGraphicsPipelineCreateInfo" where
  "sample_create_info raster multisample =
     \<lparr> gp_sType = 28, gp_pNext = 0, gp_flags = 0, stageCount = 2, pStages = 4096,
       pVertexInputState = 4352, pInputAssemblyState = 4608, pTessellationState = 0,
       pViewportState = 4864, pRasterizationState = raster, pMultisampleState = multisample,
       pDepthStencilState = 0, pColorBlendState = 5120, pDynamicState = 0,
       layout = 77, renderPass = 88, subpass = 0, basePipelineHandle = 0,
       basePipelineIndex = 0 \<rparr>"

definition sample_allocate_info :: "u64 \<Rightarrow> u32 \<Rightarrow> VkMemoryAllocateInfo" where
  "sample_allocate_info size' index =
     \<lparr> mai_sType = 5, mai_pNext = 0, allocationSize = size', memoryTypeIndex = index \<rparr>"

definition sample_submit :: "u32 \<Rightarrow> VkSubmitInfo" where
  "sample_submit n =
     \<lparr> si_sType = 4, si_pNext = 0, waitSemaphoreCount = 0, pWaitSemaphores = 0,
       pWaitDstStageMask = 0, commandBufferCount = n, pCommandBuffers = 8192,
       signalSemaphoreCount = 0, pSignalSemaphores = 0 \<rparr>"

definition blank_layer_properties :: VkLayerProperties where
  "blank_layer_properties =
     \<lparr> layerName = [], specVersion = 0, implementationVersion = 0, description = [] \<rparr>"

text \<open>
  Next layers for the samples: two that answer a fixed result and output array, and
  three that report what they were called with (the cull mode each descriptor leads to,
  the size of the allocation request, and the command-buffer count of the first
  submission together with the fence).
\<close>

definition sample_next_graphics :: "VkResult \<Rightarrow> VkPipeline list \<Rightarrow> next_CreateGraphicsPipelines" where
  "sample_next_graphics result handles =
     (\<lambda>mem dev pc n infos al out. (result, handles))"

definition sample_next_compute :: "VkResult \<Rightarrow> VkPipeline list \<Rightarrow> next_CreateComputePipelines" where
  "sample_next_compute result handles =
     (\<lambda>dev pc n infos al out. (result, handles))"

definition probe_next_graphics :: next_CreateGraphicsPipelines where
  "probe_next_graphics =
     (\<lambda>mem dev pc n infos al out.
        (VK_SUCCESS,
         map (\<lambda>i. ucast (cullMode (rasterization_at mem (pRasterizationState i)))) infos))"

definition probe_next_allocate :: next_AllocateMemory where
  "probe_next_allocate = (\<lambda>dev info al m. (VK_SUCCESS, allocationSize info))"

definition probe_next_submit :: next_QueueSubmit where
  "probe_next_submit =
     (\<lambda>queue n submits fence.
        (case submits of
           [] \<Rightarrow> 0
         | s # rest \<Rightarrow> uint (commandBufferCount s) + uint fence))"

section \<open>Properties of layer\_init.cpp and of the negotiation\<close>

lemma strcmp_eq_0_iff: "strcmp a b = 0 \<longleftrightarrow> a = b"
  by (induction a b rule: strcmp.induct) auto

text \<open>
  C5. Instance-level and device-level resolution return this layer's wrapper for each
  of the four intercepted names, whatever the dispatch data hold; for every other name
  (string equality, so case and length matter) they return what the next layer's
  resolver returns for the same handle and name, or null when none is registered.
\<close>

theorem proc_addr_resolution:
  "vkGetInstanceProcAddr g inst ''vkCreateGraphicsPipelines''
     = layer_fn Layer_vkCreateGraphicsPipelines
   \<and> vkGetInstanceProcAddr g inst ''vkCreateComputePipelines''
     = layer_fn Layer_vkCreateComputePipelines
   \<and> vkGetInstanceProcAddr g inst ''vkQueueSubmit'' = layer_fn Layer_vkQueueSubmit
   \<and> vkGetInstanceProcAddr g inst ''vkAllocateMemory'' = layer_fn Layer_vkAllocateMemory
   \<and> vkGetDeviceProcAddr g dev ''vkCreateGraphicsPipelines''
     = layer_fn Layer_vkCreateGraphicsPipelines
   \<and> vkGetDeviceProcAddr g dev ''vkCreateComputePipelines''
     = layer_fn Layer_vkCreateComputePipelines
   \<and> vkGetDeviceProcAddr g dev ''vkQueueSubmit'' = layer_fn Layer_vkQueueSubmit
   \<and> vkGetDeviceProcAddr g dev ''vkAllocateMemory'' = layer_fn Layer_vkAllocateMemory
   \<and> (pName \<notin> {''vkCreateGraphicsPipelines'', ''vkCreateComputePipelines'',
                 ''vkQueueSubmit'', ''vkAllocateMemory''} \<longrightarrow>
        vkGetInstanceProcAddr g inst pName =
          (case get_instance_proc_addr g of None \<Rightarrow> nullptr | Some nxt \<Rightarrow> nxt inst pName)
        \<and> vkGetDeviceProcAddr g dev pName =
          (case get_device_proc_addr g of None \<Rightarrow> nullptr | Some nxt \<Rightarrow> nxt dev pName))"
  unfolding vkGetInstanceProcAddr_def vkGetDeviceProcAddr_def strcmp_eq_0_iff
  by simp

theorem proc_addr_resolution_witness:
  "''vkqueuesubmit'' \<notin> {''vkCreateGraphicsPipelines'', ''vkCreateComputePipelines'',
                          ''vkQueueSubmit'', ''vkAllocateMemory''}
   \<and> vkGetInstanceProcAddr sample_layer_data 0 ''vkqueuesubmit'' = foreign_fn 13
   \<and> vkGetDeviceProcAddr sample_layer_data 5 ''vkqueuesubmit'' = foreign_fn 113
   \<and> vkGetInstanceProcAddr empty_layer_data 0 ''vkQueueSubmit2'' = nullptr
   \<and> vkGetDeviceProcAddr empty_layer_data 5 ''vkQueueSubmit2'' = nullptr
   \<and> vkGetInstanceProcAddr empty_layer_data 0 ''vkQueueSubmit'' = layer_fn Layer_vkQueueSubmit"
  using proc_addr_resolution [where g = sample_layer_data and inst = 0 and dev = 5
                               and pName = "''vkqueuesubmit''"]
        proc_addr_resolution [where g = empty_layer_data and inst = 0 and dev = 5
                               and pName = "''vkQueueSubmit2''"]
  by (simp add: sample_layer_data_def empty_layer_data_def)

text \<open>
  C6. A record whose type tag is not the negotiation tag is rejected with
  \<open>VK_ERROR_INITIALIZATION_FAILED\<close> and comes back as it was. With the right tag the
  call succeeds and the version written back is 2; if moreover the requested version is
  at least 2, the instance and device resolvers are this layer's and the physical-device
  resolver is null.
\<close>

theorem negotiation_contract:
  "(sType s \<noteq> LAYER_NEGOTIATE_INTERFACE_STRUCT \<longrightarrow>
      vkNegotiateLoaderLayerInterfaceVersion s = (VK_ERROR_INITIALIZATION_FAILED, s))
   \<and> (sType s = LAYER_NEGOTIATE_INTERFACE_STRUCT \<longrightarrow>
        fst (vkNegotiateLoaderLayerInterfaceVersion s) = VK_SUCCESS
        \<and> loaderLayerInterfaceVersion (snd (vkNegotiateLoaderLayerInterfaceVersion s)) = 2)
   \<and> (sType s = LAYER_NEGOTIATE_INTERFACE_STRUCT \<and> loaderLayerInterfaceVersion s \<ge> 2 \<longrightarrow>
        pfnGetInstanceProcAddr (snd (vkNegotiateLoaderLayerInterfaceVersion s))
          = layer_fn Layer_vkGetInstanceProcAddr
        \<and> pfnGetDeviceProcAddr (snd (vkNegotiateLoaderLayerInterfaceVersion s))
          = layer_fn Layer_vkGetDeviceProcAddr
        \<and> pfnGetPhysicalDeviceProcAddr (snd (vkNegotiateLoaderLayerInterfaceVersion s))
          = nullptr)"
  by (simp add: vkNegotiateLoaderLayerInterfaceVersion_def Let_def)

theorem negotiation_contract_witness:
  "sType (sample_negotiation 0 2) \<noteq> LAYER_NEGOTIATE_INTERFACE_STRUCT
   \<and> vkNegotiateLoaderLayerInterfaceVersion (sample_negotiation 0 2)
       = (VK_ERROR_INITIALIZATION_FAILED, sample_negotiation 0 2)
   \<and> sType (sample_negotiation 1 3) = LAYER_NEGOTIATE_INTERFACE_STRUCT
   \<and> loaderLayerInterfaceVersion (sample_negotiation 1 3) \<ge> 2
   \<and> fst (vkNegotiateLoaderLayerInterfaceVersion (sample_negotiation 1 3)) = VK_SUCCESS
   \<and> loaderLayerInterfaceVersion
        (snd (vkNegotiateLoaderLayerInterfaceVersion (sample_negotiation 1 3))) = 2
   \<and> pfnGetInstanceProcAddr
        (snd (vkNegotiateLoaderLayerInterfaceVersion (sample_negotiation 1 3)))
       = layer_fn Layer_vkGetInstanceProcAddr
   \<and> pfnGetDeviceProcAddr
        (snd (vkNegotiateLoaderLayerInterfaceVersion (sample_negotiation 1 3)))
       = layer_fn Layer_vkGetDeviceProcAddr
   \<and> pfnGetPhysicalDeviceProcAddr
        (snd (vkNegotiateLoaderLayerInterfaceVersion (sample_negotiation 1 3)))
       = nullptr"
  using negotiation_contract [of "sample_negotiation 0 2"]
        negotiation_contract [of "sample_negotiation 1 3"]
  by (simp add: sample_negotiation_def LAYER_NEGOTIATE_INTERFACE_STRUCT_def)

text \<open>
  C1, at the input where the code departs from it. The caller declares capacity 0 and
  passes a buffer holding one record of its own. The count is overwritten with 1 before
  the capacity test reads it, so the test passes and the caller's record is replaced by
  the layer identity.
\<close>

theorem enumerate_capacity_zero_is_written:
  "vkEnumerateInstanceLayerProperties (Some 0) (Some [blank_layer_properties])
     = Inr (VK_SUCCESS, Some 1, Some [layer_properties])
   \<and> blank_layer_properties \<noteq> layer_properties"
  by (simp add: vkEnumerateInstanceLayerProperties_def blank_layer_properties_def
        layer_properties_def)

section \<open>Properties of the wrapper\<close>

subsection \<open>Loops over array indices\<close>

lemma fold_index_take:
  "n \<le> length xs \<Longrightarrow> fold (\<lambda>i. f (xs ! i)) [0..<n] s = fold f (take n xs) s"
proof -
  assume n: "n \<le> length xs"
  have "take n xs = map ((!) xs) [0..<n]"
    using n by (simp add: list_eq_iff_nth_eq)
  then show ?thesis by (simp add: fold_map comp_def)
qed

lemma fold_insert_records:
  "fold (\<lambda>h cache. cache (h \<mapsto> R h)) hs c0 = (\<lambda>k. if k \<in> set hs then Some (R k) else c0 k)"
  by (induction hs arbitrary: c0) (auto simp: fun_eq_iff)

lemma CachePipelines_cache:
  assumes "unat n \<le> length hs"
  shows "pipeline_cache (CachePipelines w hs n bp) =
           (\<lambda>k. if k \<in> set (take (unat n) hs)
                then Some \<lparr> pipeline = k, usage_count = 1, bind_point = bp, shader_stages = 0 \<rparr>
                else pipeline_cache w k)"
proof -
  have "fold (\<lambda>i cache. cache (hs ! i \<mapsto>
            \<lparr> pipeline = hs ! i, usage_count = 1, bind_point = bp, shader_stages = 0 \<rparr>))
          [0..<unat n] (pipeline_cache w)
        = fold (\<lambda>h cache. cache (h \<mapsto>
            \<lparr> pipeline = h, usage_count = 1, bind_point = bp, shader_stages = 0 \<rparr>))
          (take (unat n) hs) (pipeline_cache w)"
    using fold_index_take [OF assms, of "\<lambda>h cache. cache (h \<mapsto>
            \<lparr> pipeline = h, usage_count = 1, bind_point = bp, shader_stages = 0 \<rparr>)"]
    by simp
  then show ?thesis
    by (simp add: CachePipelines_def fold_insert_records)
qed

lemma OptimizeComputePipeline_cache:
  "pipeline_cache (OptimizeComputePipeline w h) k =
     (if k = h then map_option (\<lambda>st. st \<lparr> usage_count := usage_count st + 1 \<rparr>) (pipeline_cache w k)
      else pipeline_cache w k)"
  by (simp add: OptimizeComputePipeline_def split: option.splits)

lemma post_pass_cache:
  "pipeline_cache (fold (\<lambda>h w'. OptimizeComputePipeline w' h) hs w) k =
     map_option (\<lambda>st. st \<lparr> usage_count := usage_count st + of_nat (count_list hs k) \<rparr>)
       (pipeline_cache w k)"
proof (induction hs arbitrary: w)
  case Nil
  show ?case by (cases "pipeline_cache w k") simp_all
next
  case (Cons h hs)
  show ?case
    by (cases "pipeline_cache w k") (auto simp: Cons.IH OptimizeComputePipeline_cache ac_simps)
qed

lemma post_pass_indexed:
  assumes "unat n \<le> length hs"
  shows "fold (\<lambda>i w'. OptimizeComputePipeline w' (hs ! i)) [0..<unat n] w
         = fold (\<lambda>h w'. OptimizeComputePipeline w' h) (take (unat n) hs) w"
  using fold_index_take [OF assms, of "\<lambda>h w'. OptimizeComputePipeline w' h"] by simp

lemma graphics_records:
  assumes init: "features_initialized w"
    and len: "length out = unat n"
    and call: "CreateGraphicsPipelines w nxt mem dev pc n infos al pp = (VK_SUCCESS, out, mem', w')"
  shows "pipeline_cache w' h =
           (if h \<in> set out
            then Some \<lparr> pipeline = h, usage_count = 1,
                        bind_point = VK_PIPELINE_BIND_POINT_GRAPHICS, shader_stages = 0 \<rparr>
            else pipeline_cache w h)"
proof -
  have "w' = CachePipelines w out n VK_PIPELINE_BIND_POINT_GRAPHICS"
    using call init
    by (auto simp: CreateGraphicsPipelines_def Let_def split: prod.splits if_splits)
  then show ?thesis
    using len by (simp add: CachePipelines_cache)
qed

lemma compute_records:
  assumes init: "features_initialized w"
    and len: "length out = unat n"
    and call: "CreateComputePipelines w nxt dev pc n ci al pp = (VK_SUCCESS, out, w')"
  shows "pipeline_cache w' h =
           (if h \<in> set out
            then Some \<lparr> pipeline = h, usage_count = 1 + of_nat (count_list out h),
                        bind_point = VK_PIPELINE_BIND_POINT_COMPUTE, shader_stages = 0 \<rparr>
            else pipeline_cache w h)"
proof -
  have "w' = fold (\<lambda>i w'. OptimizeComputePipeline w' (out ! i)) [0..<unat n]
               (CachePipelines w out n VK_PIPELINE_BIND_POINT_COMPUTE)"
    using call init
    by (auto simp: CreateComputePipelines_def Let_def split: prod.splits if_splits)
  then show ?thesis
    using len by (simp add: post_pass_indexed post_pass_cache CachePipelines_cache option.map_ident)
qed

lemma count_list_distinct: "distinct xs \<Longrightarrow> x \<in> set xs \<Longrightarrow> count_list xs x = 1"
  by (induction xs) (auto simp: count_list_0_iff)

lemma upt_0_2: "[0..<2] = [0, 1]"
  by (simp add: numeral_2_eq_2)

lemma upt_0_3: "[0..<3] = [0, 1, 2]"
  by (simp add: numeral_3_eq_3)

lemma initialized_wrapper_simps:
  "features_initialized initialized_wrapper"
  "pipeline_cache initialized_wrapper = Map.empty"
  by (simp_all add: initialized_wrapper_def InitializeDeviceContext_def g_wrapper_def)

subsection \<open>Pipeline creation and the object records\<close>

text \<open>
  C2 as stated fails. The wrapper is initialized and the next layer reports
  \<open>VK_ERROR_OUT_OF_DEVICE_MEMORY\<close> for a batch of two, leaving the valid handle 5
  in the first slot and a null handle in the second: no record is made for handle 5.
\<close>

theorem partial_failure_records_nothing_counterexample:
  "fst (CreateGraphicsPipelines initialized_wrapper
          (sample_next_graphics VK_ERROR_OUT_OF_DEVICE_MEMORY [5, 0]) sample_memory 2 0 2
          [sample_create_info 16 32, sample_create_info 16 0] 0 [0, 0])
     = VK_ERROR_OUT_OF_DEVICE_MEMORY
   \<and> fst (snd (CreateGraphicsPipelines initialized_wrapper
          (sample_next_graphics VK_ERROR_OUT_OF_DEVICE_MEMORY [5, 0]) sample_memory 2 0 2
          [sample_create_info 16 32, sample_create_info 16 0] 0 [0, 0]))
     = [5, 0]
   \<and> pipeline_cache (snd (snd (snd (CreateGraphicsPipelines initialized_wrapper
          (sample_next_graphics VK_ERROR_OUT_OF_DEVICE_MEMORY [5, 0]) sample_memory 2 0 2
          [sample_create_info 16 32, sample_create_info 16 0] 0 [0, 0])))) 5
     = None"
  by (simp add: CreateGraphicsPipelines_def sample_next_graphics_def initialized_wrapper_def
        InitializeDeviceContext_def g_wrapper_def VK_ERROR_OUT_OF_DEVICE_MEMORY_def
        VK_SUCCESS_def split: prod.splits)

text \<open>
  C2, amended. Whenever the forwarded call returns anything other than
  \<open>VK_SUCCESS\<close>, partial failure included, graphics and compute creation leave
  the wrapper, and with it the object-record map, exactly as it was: recording is
  skipped for the whole batch.
\<close>

theorem failed_batch_records_nothing:
  "(fst (CreateGraphicsPipelines w nxtg mem dev pc n infos al pp) \<noteq> VK_SUCCESS \<longrightarrow>
       snd (snd (snd (CreateGraphicsPipelines w nxtg mem dev pc n infos al pp))) = w)
   \<and> (fst (CreateComputePipelines w nxtc dev pc n ci al pp) \<noteq> VK_SUCCESS \<longrightarrow>
       snd (snd (CreateComputePipelines w nxtc dev pc n ci al pp)) = w)"
  by (auto simp: CreateGraphicsPipelines_def CreateComputePipelines_def Let_def
           split: prod.splits if_splits)

theorem failed_batch_records_nothing_witness:
  "fst (CreateGraphicsPipelines initialized_wrapper
          (sample_next_graphics VK_ERROR_OUT_OF_DEVICE_MEMORY [0, 6]) sample_memory 2 0 2
          [sample_create_info 16 32, sample_create_info 16 0] 0 [0, 0]) \<noteq> VK_SUCCESS
   \<and> snd (snd (snd (CreateGraphicsPipelines initialized_wrapper
          (sample_next_graphics VK_ERROR_OUT_OF_DEVICE_MEMORY [0, 6]) sample_memory 2 0 2
          [sample_create_info 16 32, sample_create_info 16 0] 0 [0, 0]))) = initialized_wrapper
   \<and> fst (CreateComputePipelines initialized_wrapper
          (sample_next_compute VK_ERROR_OUT_OF_DEVICE_MEMORY [5, 0]) 2 0 2 4096 0 [0, 0])
       \<noteq> VK_SUCCESS
   \<and> snd (snd (CreateComputePipelines initialized_wrapper
          (sample_next_compute VK_ERROR_OUT_OF_DEVICE_MEMORY [5, 0]) 2 0 2 4096 0 [0, 0]))
       = initialized_wrapper"
proof -
  have g: "fst (CreateGraphicsPipelines initialized_wrapper
          (sample_next_graphics VK_ERROR_OUT_OF_DEVICE_MEMORY [0, 6]) sample_memory 2 0 2
          [sample_create_info 16 32, sample_create_info 16 0] 0 [0, 0]) \<noteq> VK_SUCCESS"
    by (simp add: CreateGraphicsPipelines_def sample_next_graphics_def
          VK_ERROR_OUT_OF_DEVICE_MEMORY_def VK_SUCCESS_def split: prod.splits)
  have c: "fst (CreateComputePipelines initialized_wrapper
          (sample_next_compute VK_ERROR_OUT_OF_DEVICE_MEMORY [5, 0]) 2 0 2 4096 0 [0, 0])
       \<noteq> VK_SUCCESS"
    by (simp add: CreateComputePipelines_def sample_next_compute_def
          VK_ERROR_OUT_OF_DEVICE_MEMORY_def VK_SUCCESS_def split: prod.splits)
  show ?thesis
    using g c
      failed_batch_records_nothing [of initialized_wrapper
        "sample_next_graphics VK_ERROR_OUT_OF_DEVICE_MEMORY [0, 6]" sample_memory 2 0 2
        "[sample_create_info 16 32, sample_create_info 16 0]" 0 "[0, 0]"
        "sample_next_compute VK_ERROR_OUT_OF_DEVICE_MEMORY [5, 0]" 4096]
    by blast
qed

text \<open>
  C4 as stated fails in two ways. Before the device context is initialized a compute
  batch that succeeds leaves no record for its handle 5; and after initialization a
  successful compute batch whose two output handles are both 7 leaves one record with
  usage counter 3.
\<close>

theorem success_without_record_counterexample:
  "fst (CreateComputePipelines g_wrapper (sample_next_compute VK_SUCCESS [5]) 2 0 1 4096 0 [0])
     = VK_SUCCESS
   \<and> pipeline_cache
       (snd (snd (CreateComputePipelines g_wrapper (sample_next_compute VK_SUCCESS [5])
                    2 0 1 4096 0 [0]))) 5
     = None
   \<and> fst (CreateComputePipelines initialized_wrapper (sample_next_compute VK_SUCCESS [7, 7])
            2 0 2 4096 0 [0, 0])
     = VK_SUCCESS
   \<and> map_option usage_count
       (pipeline_cache
          (snd (snd (CreateComputePipelines initialized_wrapper
                       (sample_next_compute VK_SUCCESS [7, 7]) 2 0 2 4096 0 [0, 0]))) 7)
     = Some 3"
  by (simp add: CreateComputePipelines_def sample_next_compute_def g_wrapper_def
        initialized_wrapper_def InitializeDeviceContext_def CachePipelines_def
        OptimizeComputePipeline_def upt_0_2)

lemma records_after_success_initialized:
  assumes init: "features_initialized w"
  shows
    "(CreateGraphicsPipelines w nxtg mem dev pc n infos al pp = (VK_SUCCESS, outg, mem', wg)
        \<and> length outg = unat n \<longrightarrow>
      (\<forall>h. pipeline_cache wg h =
             (if h \<in> set outg
              then Some \<lparr> pipeline = h, usage_count = 1,
                          bind_point = VK_PIPELINE_BIND_POINT_GRAPHICS, shader_stages = 0 \<rparr>
              else pipeline_cache w h)))
     \<and> (CreateComputePipelines w nxtc dev pc n ci al pp = (VK_SUCCESS, outc, wc)
          \<and> length outc = unat n \<longrightarrow>
        (\<forall>h. pipeline_cache wc h =
               (if h \<in> set outc
                then Some \<lparr> pipeline = h, usage_count = 1 + of_nat (count_list outc h),
                            bind_point = VK_PIPELINE_BIND_POINT_COMPUTE, shader_stages = 0 \<rparr>
                else pipeline_cache w h))
        \<and> (distinct outc \<longrightarrow>
             card (set outc) = unat n
             \<and> (\<forall>h\<in>set outc. map_option usage_count (pipeline_cache wc h) = Some 2)))"
proof (intro conjI impI allI ballI)
  fix h
  assume "CreateGraphicsPipelines w nxtg mem dev pc n infos al pp = (VK_SUCCESS, outg, mem', wg)
            \<and> length outg = unat n"
  then show "pipeline_cache wg h =
             (if h \<in> set outg
              then Some \<lparr> pipeline = h, usage_count = 1,
                          bind_point = VK_PIPELINE_BIND_POINT_GRAPHICS, shader_stages = 0 \<rparr>
              else pipeline_cache w h)"
    using graphics_records [OF init] by blast
next
  fix h
  assume "CreateComputePipelines w nxtc dev pc n ci al pp = (VK_SUCCESS, outc, wc)
            \<and> length outc = unat n"
  then show "pipeline_cache wc h =
               (if h \<in> set outc
                then Some \<lparr> pipeline = h, usage_count = 1 + of_nat (count_list outc h),
                            bind_point = VK_PIPELINE_BIND_POINT_COMPUTE, shader_stages = 0 \<rparr>
                else pipeline_cache w h)"
    using compute_records [OF init] by blast
next
  assume "CreateComputePipelines w nxtc dev pc n ci al pp = (VK_SUCCESS, outc, wc)
            \<and> length outc = unat n"
    and "distinct outc"
  then show "card (set outc) = unat n"
    by (simp add: distinct_card)
next
  fix h
  assume c: "CreateComputePipelines w nxtc dev pc n ci al pp = (VK_SUCCESS, outc, wc)
            \<and> length outc = unat n"
    and d: "distinct outc" and h: "h \<in> set outc"
  from c have "pipeline_cache wc h =
               (if h \<in> set outc
                then Some \<lparr> pipeline = h, usage_count = 1 + of_nat (count_list outc h),
                            bind_point = VK_PIPELINE_BIND_POINT_COMPUTE, shader_stages = 0 \<rparr>
                else pipeline_cache w h)"
    using compute_records [OF init] by blast
  then show "map_option usage_count (pipeline_cache wc h) = Some 2"
    using h count_list_distinct [OF d h] by simp
qed

text \<open>
  C4, amended. After initialization, when the forwarded call returns \<open>VK_SUCCESS\<close>
  and leaves \<open>n\<close> output handles: for graphics pipelines every output handle has a
  record with usage counter 1 and the graphics bind point; for compute pipelines every
  output handle has a record with the compute bind point and usage counter 1 plus the
  number of times the handle occurs in the output, which is 2 for each of the \<open>n\<close>
  handles when they are pairwise distinct. The records of all other handles are as
  before, so a record for a handle exists afterwards exactly if the handle is in the
  output or had a record before. A call made before initialization, or one whose
  forwarded call returns another result, leaves the object records as they were.
\<close>

theorem records_after_successful_creation:
  assumes init: "features_initialized w"
  shows
    "(CreateGraphicsPipelines w nxtg mem dev pc n infos al pp = (VK_SUCCESS, outg, mem', wg)
        \<and> length outg = unat n \<longrightarrow>
      (\<forall>h. pipeline_cache wg h =
             (if h \<in> set outg
              then Some \<lparr> pipeline = h, usage_count = 1,
                          bind_point = VK_PIPELINE_BIND_POINT_GRAPHICS, shader_stages = 0 \<rparr>
              else pipeline_cache w h)))
     \<and> (CreateComputePipelines w nxtc dev pc n ci al pp = (VK_SUCCESS, outc, wc)
          \<and> length outc = unat n \<longrightarrow>
        (\<forall>h. pipeline_cache wc h =
               (if h \<in> set outc
                then Some \<lparr> pipeline = h, usage_count = 1 + of_nat (count_list outc h),
                            bind_point = VK_PIPELINE_BIND_POINT_COMPUTE, shader_stages = 0 \<rparr>
                else pipeline_cache w h))
        \<and> (distinct outc \<longrightarrow>
             card (set outc) = unat n
             \<and> (\<forall>h\<in>set outc. map_option usage_count (pipeline_cache wc h) = Some 2)))
     \<and> (\<not> features_initialized w0
          \<or> fst (CreateGraphicsPipelines w0 nxtg0 mem dev pc n infos al pp) \<noteq> VK_SUCCESS \<longrightarrow>
        pipeline_cache
          (snd (snd (snd (CreateGraphicsPipelines w0 nxtg0 mem dev pc n infos al pp))))
          = pipeline_cache w0)
     \<and> (\<not> features_initialized w0
          \<or> fst (CreateComputePipelines w0 nxtc0 dev pc n ci al pp) \<noteq> VK_SUCCESS \<longrightarrow>
        pipeline_cache (snd (snd (CreateComputePipelines w0 nxtc0 dev pc n ci al pp)))
          = pipeline_cache w0)"
proof -
  have g0: "\<not> features_initialized w0
          \<or> fst (CreateGraphicsPipelines w0 nxtg0 mem dev pc n infos al pp) \<noteq> VK_SUCCESS \<longrightarrow>
        pipeline_cache
          (snd (snd (snd (CreateGraphicsPipelines w0 nxtg0 mem dev pc n infos al pp))))
          = pipeline_cache w0"
    by (auto simp: CreateGraphicsPipelines_def Let_def split: prod.splits if_splits)
  have c0: "\<not> features_initialized w0
          \<or> fst (CreateComputePipelines w0 nxtc0 dev pc n ci al pp) \<noteq> VK_SUCCESS \<longrightarrow>
        pipeline_cache (snd (snd (CreateComputePipelines w0 nxtc0 dev pc n ci al pp)))
          = pipeline_cache w0"
    by (auto simp: CreateComputePipelines_def Let_def split: prod.splits if_splits)
  show ?thesis
    by (intro conjI)
       (rule records_after_success_initialized [OF init, THEN conjunct1],
        rule records_after_success_initialized [OF init, THEN conjunct2],
        rule g0, rule c0)
qed

theorem records_after_successful_creation_witness:
  "features_initialized initialized_wrapper
   \<and> fst (CreateGraphicsPipelines initialized_wrapper (sample_next_graphics VK_SUCCESS [5, 6])
            sample_memory 2 0 2 [sample_create_info 16 32, sample_create_info 16 0] 0 [0, 0])
       = VK_SUCCESS
   \<and> pipeline_cache
       (snd (snd (snd (CreateGraphicsPipelines initialized_wrapper
          (sample_next_graphics VK_SUCCESS [5, 6]) sample_memory 2 0 2
          [sample_create_info 16 32, sample_create_info 16 0] 0 [0, 0])))) 6
       = Some \<lparr> pipeline = 6, usage_count = 1,
                 bind_point = VK_PIPELINE_BIND_POINT_GRAPHICS, shader_stages = 0 \<rparr>
   \<and> fst (CreateComputePipelines initialized_wrapper (sample_next_compute VK_SUCCESS [5, 6])
            2 0 2 4096 0 [0, 0]) = VK_SUCCESS
   \<and> distinct [5, 6 :: VkPipeline]
   \<and> pipeline_cache
       (snd (snd (CreateComputePipelines initialized_wrapper
          (sample_next_compute VK_SUCCESS [5, 6]) 2 0 2 4096 0 [0, 0]))) 5
       = Some \<lparr> pipeline = 5, usage_count = 2,
                 bind_point = VK_PIPELINE_BIND_POINT_COMPUTE, shader_stages = 0 \<rparr>
   \<and> pipeline_cache
       (snd (snd (CreateComputePipelines initialized_wrapper
          (sample_next_compute VK_SUCCESS [5, 6]) 2 0 2 4096 0 [0, 0]))) 9
       = None
   \<and> \<not> features_initialized g_wrapper
   \<and> pipeline_cache
       (snd (snd (snd (CreateGraphicsPipelines g_wrapper
          (sample_next_graphics VK_SUCCESS [5, 6]) sample_memory 2 0 2
          [sample_create_info 16 32, sample_create_info 16 0] 0 [0, 0])))) 5
       = None
   \<and> fst (CreateComputePipelines initialized_wrapper
            (sample_next_compute VK_ERROR_OUT_OF_DEVICE_MEMORY [5, 0]) 2 0 2 4096 0 [0, 0])
       \<noteq> VK_SUCCESS
   \<and> pipeline_cache
       (snd (snd (CreateComputePipelines initialized_wrapper
          (sample_next_compute VK_ERROR_OUT_OF_DEVICE_MEMORY [5, 0]) 2 0 2 4096 0 [0, 0]))) 5
       = None"
proof -
  let ?infos = "[sample_create_info 16 32, sample_create_info 16 0]"
  let ?g = "CreateGraphicsPipelines initialized_wrapper (sample_next_graphics VK_SUCCESS [5, 6])
            sample_memory 2 0 2 ?infos 0 [0, 0]"
  let ?c = "CreateComputePipelines initialized_wrapper (sample_next_compute VK_SUCCESS [5, 6])
            2 0 2 4096 0 [0, 0]"
  let ?gu = "CreateGraphicsPipelines g_wrapper (sample_next_graphics VK_SUCCESS [5, 6])
            sample_memory 2 0 2 ?infos 0 [0, 0]"
  let ?cf = "CreateComputePipelines initialized_wrapper
            (sample_next_compute VK_ERROR_OUT_OF_DEVICE_MEMORY [5, 0]) 2 0 2 4096 0 [0, 0]"
  have g1: "fst ?g = VK_SUCCESS" and g2: "fst (snd ?g) = [5, 6]"
    by (simp_all add: CreateGraphicsPipelines_def sample_next_graphics_def
          initialized_wrapper_simps split: prod.splits)
  have c1: "fst ?c = VK_SUCCESS" and c2: "fst (snd ?c) = [5, 6]"
    by (simp_all add: CreateComputePipelines_def sample_next_compute_def
          initialized_wrapper_simps Let_def split: prod.splits)
  have g: "?g = (VK_SUCCESS, [5, 6], fst (snd (snd ?g)), snd (snd (snd ?g)))"
    using g1 g2 by (metis prod.collapse)
  have c: "?c = (VK_SUCCESS, [5, 6], snd (snd ?c))"
    using c1 c2 by (metis prod.collapse)
  have len: "length [5, 6 :: VkPipeline] = unat (2 :: u32)"
    by simp
  have u: "\<not> features_initialized g_wrapper"
    by (simp add: g_wrapper_def)
  have f: "fst ?cf \<noteq> VK_SUCCESS"
    by (simp add: CreateComputePipelines_def sample_next_compute_def
          VK_ERROR_OUT_OF_DEVICE_MEMORY_def VK_SUCCESS_def split: prod.splits)
  note t = records_after_successful_creation [OF initialized_wrapper_simps(1),
        where nxtg = "sample_next_graphics VK_SUCCESS [5, 6]" and mem = sample_memory
          and dev = 2 and pc = 0 and n = 2 and infos = ?infos and al = 0 and pp = "[0, 0]"
          and outg = "[5, 6]" and mem' = "fst (snd (snd ?g))" and wg = "snd (snd (snd ?g))"
          and nxtc = "sample_next_compute VK_SUCCESS [5, 6]" and ci = 4096
          and outc = "[5, 6]" and wc = "snd (snd ?c)"]
  have G: "pipeline_cache (snd (snd (snd ?g))) 6
       = Some \<lparr> pipeline = 6, usage_count = 1,
                 bind_point = VK_PIPELINE_BIND_POINT_GRAPHICS, shader_stages = 0 \<rparr>"
    using t [THEN conjunct1] g len by simp
  have C: "pipeline_cache (snd (snd ?c)) 5
       = Some \<lparr> pipeline = 5, usage_count = 2,
                 bind_point = VK_PIPELINE_BIND_POINT_COMPUTE, shader_stages = 0 \<rparr>"
    "pipeline_cache (snd (snd ?c)) 9 = None"
    using t [THEN conjunct2, THEN conjunct1] c len
    by (simp_all add: initialized_wrapper_simps)
  have G0: "pipeline_cache (snd (snd (snd ?gu))) = pipeline_cache g_wrapper"
    using t [where ?w0.0 = g_wrapper and ?nxtg0.0 = "sample_next_graphics VK_SUCCESS [5, 6]",
             THEN conjunct2, THEN conjunct2, THEN conjunct1] u
    by blast
  have C0: "pipeline_cache (snd (snd ?cf)) = pipeline_cache initialized_wrapper"
    using t [where ?w0.0 = initialized_wrapper
               and ?nxtc0.0 = "sample_next_compute VK_ERROR_OUT_OF_DEVICE_MEMORY [5, 0]",
             THEN conjunct2, THEN conjunct2, THEN conjunct2] f
    by blast
  have E: "pipeline_cache g_wrapper 5 = None" "pipeline_cache initialized_wrapper 5 = None"
    by (simp_all add: g_wrapper_def initialized_wrapper_simps)
  have d: "distinct [5, 6 :: VkPipeline]"
    by simp
  show ?thesis
    using initialized_wrapper_simps(1) g1 G c1 d C u f
    by (simp only: G0 C0 E simp_thms)
qed

text \<open>
  C9. While \<open>features_initialized\<close> is false, graphics-pipeline creation and memory
  allocation call the next layer with the caller's arguments as they are (the memory
  behind the descriptors untouched, the allocation request unrounded), return what it
  returns and leave the wrapper as it was; compute-pipeline creation leaves the wrapper
  as it was whatever the next layer returns.
\<close>

theorem uninitialized_passthrough:
  "\<not> features_initialized w \<Longrightarrow>
     CreateGraphicsPipelines w nxtg mem dev pc n infos al pp
       = (case nxtg mem dev pc n infos al pp of (result, out) \<Rightarrow> (result, out, mem, w))
     \<and> AllocateMemory w nxta dev info al pm
       = Inr (case nxta dev info al pm of (result, m) \<Rightarrow> (result, m, w))
     \<and> CreateComputePipelines w nxtc dev pc n ci al pp
       = (case nxtc dev pc n ci al pp of (result, out) \<Rightarrow> (result, out, w))"
  by (auto simp: CreateGraphicsPipelines_def CreateComputePipelines_def AllocateMemory_def
        Let_def split: prod.splits if_splits)

theorem uninitialized_passthrough_witness:
  "\<not> features_initialized g_wrapper
   \<and> CreateGraphicsPipelines g_wrapper probe_next_graphics sample_memory 2 0 1
        [sample_create_info 16 32] 0 [0]
       = (VK_SUCCESS, [0], sample_memory, g_wrapper)
   \<and> AllocateMemory g_wrapper probe_next_allocate 2 (sample_allocate_info 100 0) 0 0
       = Inr (VK_SUCCESS, 100, g_wrapper)
   \<and> CreateComputePipelines g_wrapper (sample_next_compute VK_SUCCESS [5]) 2 0 1 4096 0 [0]
       = (VK_SUCCESS, [5], g_wrapper)
   \<and> pipeline_cache g_wrapper 5 = None"
  using uninitialized_passthrough [of g_wrapper probe_next_graphics sample_memory 2 0 1
          "[sample_create_info 16 32]" 0 "[0]" probe_next_allocate "sample_allocate_info 100 0" 0
          "sample_next_compute VK_SUCCESS [5]" 4096]
  by (simp add: g_wrapper_def probe_next_graphics_def probe_next_allocate_def
        sample_next_compute_def sample_memory_def sample_rasterization_def
        sample_create_info_def sample_allocate_info_def)

text \<open>
  C10. The object records are a map from handle values, so a handle has at most one.
  After \<open>CachePipelines\<close> every handle of the batch has the fresh record (usage
  counter 1, the batch's bind point), whatever record it had before, and every other
  handle keeps what it had; \<open>OptimizeComputePipeline\<close> on a handle without a
  record returns the wrapper unchanged.
\<close>

theorem cache_replaces_and_skips:
  "(unat n \<le> length hs \<longrightarrow>
      pipeline_cache (CachePipelines w hs n bp) h =
        (if h \<in> set (take (unat n) hs)
         then Some \<lparr> pipeline = h, usage_count = 1, bind_point = bp, shader_stages = 0 \<rparr>
         else pipeline_cache w h))
   \<and> (pipeline_cache w h = None \<longrightarrow> OptimizeComputePipeline w h = w)"
  by (simp add: CachePipelines_cache OptimizeComputePipeline_def)

theorem cache_replaces_and_skips_witness:
  "pipeline_cache
     (OptimizeComputePipeline
        (CachePipelines initialized_wrapper [5] 1 VK_PIPELINE_BIND_POINT_COMPUTE) 5) 5
     = Some \<lparr> pipeline = 5, usage_count = 2,
               bind_point = VK_PIPELINE_BIND_POINT_COMPUTE, shader_stages = 0 \<rparr>
   \<and> unat (2 :: u32) \<le> length [5, 6 :: VkPipeline]
   \<and> pipeline_cache
       (CachePipelines
          (OptimizeComputePipeline
             (CachePipelines initialized_wrapper [5] 1 VK_PIPELINE_BIND_POINT_COMPUTE) 5)
          [5, 6] 2 VK_PIPELINE_BIND_POINT_GRAPHICS) 5
     = Some \<lparr> pipeline = 5, usage_count = 1,
               bind_point = VK_PIPELINE_BIND_POINT_GRAPHICS, shader_stages = 0 \<rparr>
   \<and> pipeline_cache initialized_wrapper 9 = None
   \<and> OptimizeComputePipeline initialized_wrapper 9 = initialized_wrapper"
proof -
  have a: "pipeline_cache
     (OptimizeComputePipeline
        (CachePipelines initialized_wrapper [5] 1 VK_PIPELINE_BIND_POINT_COMPUTE) 5) 5
     = Some \<lparr> pipeline = 5, usage_count = 2,
               bind_point = VK_PIPELINE_BIND_POINT_COMPUTE, shader_stages = 0 \<rparr>"
    by (simp add: OptimizeComputePipeline_def CachePipelines_def)
  have b: "pipeline_cache initialized_wrapper 9 = None"
    by (simp add: initialized_wrapper_simps)
  show ?thesis
    using a b
      cache_replaces_and_skips [of 2 "[5, 6]"
        "OptimizeComputePipeline
           (CachePipelines initialized_wrapper [5] 1 VK_PIPELINE_BIND_POINT_COMPUTE) 5"
        VK_PIPELINE_BIND_POINT_GRAPHICS 5]
      cache_replaces_and_skips [of 2 "[5, 6]" initialized_wrapper
        VK_PIPELINE_BIND_POINT_GRAPHICS 9]
    by simp
qed

subsection \<open>The graphics descriptors\<close>

lemma OptimizeRasterizationState_idem:
  "OptimizeRasterizationState (OptimizeRasterizationState s) = OptimizeRasterizationState s"
  by (simp add: OptimizeRasterizationState_def Let_def VK_CULL_MODE_NONE_def
        VK_CULL_MODE_BACK_BIT_def)

lemma sint_eq_uint_below_2_31:
  "(x :: u32) \<le> 2147483647 \<Longrightarrow> sint x = uint x"
proof -
  assume "x \<le> 2147483647"
  then have le: "uint x \<le> 2147483647"
    by (simp add: word_le_def)
  have "(0::int) \<le> 2 ^ 31"
    by simp
  then have a: "- (2 ^ 31) \<le> uint x"
    using uint_ge_0 [of x] by linarith
  have b: "uint x < 2 ^ 31"
    using le by simp
  have "signed_take_bit 31 (uint x) = uint x"
    by (rule signed_take_bit_int_eq_self [OF a b])
  then show ?thesis
    by (simp add: sint_uint)
qed

lemma std_min_4_signed_le: "std_min a 4 \<le>s 4"
  by (simp add: std_min_def word_sle_eq word_sless_alt)

lemma std_min_4_valid: "(x :: u32) \<le> 2147483647 \<Longrightarrow> std_min x 4 = min x 4"
  by (simp add: std_min_def word_sless_alt sint_eq_uint_below_2_31 min_def word_le_def
        word_less_def)

lemma OptimizeMultisampleState_samples:
  "OptimizeMultisampleState ms =
     ms \<lparr> rasterizationSamples := std_min (rasterizationSamples ms) VK_SAMPLE_COUNT_4_BIT \<rparr>"
  by (simp add: OptimizeMultisampleState_def std_min_def VK_SAMPLE_COUNT_1_BIT_def
        VK_SAMPLE_COUNT_4_BIT_def word_sless_alt)

lemma OptimizeMultisampleState_idem:
  "OptimizeMultisampleState (OptimizeMultisampleState s) = OptimizeMultisampleState s"
  by (simp add: OptimizeMultisampleState_def std_min_def word_sless_alt)

lemma rasterization_at_optimize_in_place:
  "rasterization_at (optimize_in_place m d) p =
     (if p \<noteq> 0 \<and> p = pRasterizationState d
      then OptimizeRasterizationState (rasterization_at m p)
      else rasterization_at m p)"
  by (simp add: optimize_in_place_def Let_def)

lemma multisample_at_optimize_in_place:
  "multisample_at (optimize_in_place m d) p =
     (if p \<noteq> 0 \<and> p = pMultisampleState d
      then OptimizeMultisampleState (multisample_at m p)
      else multisample_at m p)"
  by (simp add: optimize_in_place_def Let_def)

lemma rasterization_at_fold:
  "rasterization_at (fold (\<lambda>d m. optimize_in_place m d) ds mem) p =
     (if p \<noteq> 0 \<and> p \<in> pRasterizationState ` set ds
      then OptimizeRasterizationState (rasterization_at mem p)
      else rasterization_at mem p)"
  by (induction ds arbitrary: mem)
     (auto simp: rasterization_at_optimize_in_place OptimizeRasterizationState_idem)

lemma multisample_at_fold:
  "multisample_at (fold (\<lambda>d m. optimize_in_place m d) ds mem) p =
     (if p \<noteq> 0 \<and> p \<in> pMultisampleState ` set ds
      then OptimizeMultisampleState (multisample_at mem p)
      else multisample_at mem p)"
  by (induction ds arbitrary: mem)
     (auto simp: multisample_at_optimize_in_place OptimizeMultisampleState_idem)

lemma fold_collect:
  "fold (\<lambda>x (m, acc). (g m x, acc @ [x])) xs (m0, acc0) = (fold (\<lambda>x m. g m x) xs m0, acc0 @ xs)"
  by (induction xs arbitrary: m0 acc0) simp_all

lemma optimized_infos_loop_take:
  assumes "unat n \<le> length infos"
  shows "optimized_infos_loop mem n infos =
           (fold (\<lambda>d m. optimize_in_place m d) (take (unat n) infos) mem, take (unat n) infos)"
proof -
  have "optimized_infos_loop mem n infos =
          fold (\<lambda>x (m, acc). (optimize_in_place m x, acc @ [x])) (take (unat n) infos) (mem, [])"
    unfolding optimized_infos_loop_def Let_def
    using fold_index_take [OF assms, of "\<lambda>x (m, acc). (optimize_in_place m x, acc @ [x])"]
    by simp
  then show ?thesis by (simp add: fold_collect)
qed

text \<open>
  C8. For a batch of \<open>n\<close> descriptors: the descriptors handed on are the caller's,
  field for field (stages, layout, render pass and all pointers). The rasterization
  state behind a non-null pointer of the batch becomes \<open>OptimizeRasterizationState\<close>
  of what it was and the multisample state likewise, wherever in the batch and however
  often the pointer occurs; all other states stay as they were.
  \<open>OptimizeRasterizationState\<close> changes only depth bias, depth clamp, rasterizer
  discard and a cull mode of NONE, which becomes BACK;
  \<open>OptimizeMultisampleState\<close> changes only the sample count, to the smaller of
  itself and 4 in the signed order in which the code compares them: the result is at
  most 4 in that order, for every count in the enumeration's range
  (up to \<open>0x7FFFFFFF\<close>) it is the unsigned minimum of the count and 4 and so at most
  4, and a count of 1 stays. After initialization the next layer is called with that
  memory and those descriptors.
\<close>

theorem graphics_transformation_scope:
  "unat n \<le> length infos \<Longrightarrow>
     snd (optimized_infos_loop mem n infos) = take (unat n) infos
   \<and> rasterization_at (fst (optimized_infos_loop mem n infos)) p =
       (if p \<noteq> 0 \<and> p \<in> pRasterizationState ` set (take (unat n) infos)
        then OptimizeRasterizationState (rasterization_at mem p)
        else rasterization_at mem p)
   \<and> multisample_at (fst (optimized_infos_loop mem n infos)) q =
       (if q \<noteq> 0 \<and> q \<in> pMultisampleState ` set (take (unat n) infos)
        then OptimizeMultisampleState (multisample_at mem q)
        else multisample_at mem q)
   \<and> OptimizeRasterizationState rs =
       rs \<lparr> depthBiasEnable := VK_FALSE, depthClampEnable := VK_FALSE,
            rasterizerDiscardEnable := VK_FALSE,
            cullMode := (if cullMode rs = VK_CULL_MODE_NONE then VK_CULL_MODE_BACK_BIT
                         else cullMode rs) \<rparr>
   \<and> OptimizeMultisampleState ms =
       ms \<lparr> rasterizationSamples :=
              std_min (rasterizationSamples ms) VK_SAMPLE_COUNT_4_BIT \<rparr>
   \<and> rasterizationSamples (OptimizeMultisampleState ms) \<le>s 4
   \<and> (rasterizationSamples ms \<le> 2147483647 \<longrightarrow>
        rasterizationSamples (OptimizeMultisampleState ms) = min (rasterizationSamples ms) 4
        \<and> rasterizationSamples (OptimizeMultisampleState ms) \<le> 4)
   \<and> (rasterizationSamples ms = VK_SAMPLE_COUNT_1_BIT \<longrightarrow> OptimizeMultisampleState ms = ms)
   \<and> (features_initialized w \<longrightarrow>
        fst (CreateGraphicsPipelines w nxt mem dev pc n infos al pp) =
        fst (nxt (fst (optimized_infos_loop mem n infos)) dev pc n
                 (snd (optimized_infos_loop mem n infos)) al pp))"
proof -
  assume len: "unat n \<le> length infos"
  have a: "snd (optimized_infos_loop mem n infos) = take (unat n) infos"
    by (simp add: optimized_infos_loop_take [OF len])
  have b: "rasterization_at (fst (optimized_infos_loop mem n infos)) p =
       (if p \<noteq> 0 \<and> p \<in> pRasterizationState ` set (take (unat n) infos)
        then OptimizeRasterizationState (rasterization_at mem p)
        else rasterization_at mem p)"
    by (simp only: optimized_infos_loop_take [OF len] fst_conv rasterization_at_fold)
  have c: "multisample_at (fst (optimized_infos_loop mem n infos)) q =
       (if q \<noteq> 0 \<and> q \<in> pMultisampleState ` set (take (unat n) infos)
        then OptimizeMultisampleState (multisample_at mem q)
        else multisample_at mem q)"
    by (simp only: optimized_infos_loop_take [OF len] fst_conv multisample_at_fold)
  have d: "OptimizeRasterizationState rs =
       rs \<lparr> depthBiasEnable := VK_FALSE, depthClampEnable := VK_FALSE,
            rasterizerDiscardEnable := VK_FALSE,
            cullMode := (if cullMode rs = VK_CULL_MODE_NONE then VK_CULL_MODE_BACK_BIT
                         else cullMode rs) \<rparr>"
    by (simp add: OptimizeRasterizationState_def Let_def)
  have e: "OptimizeMultisampleState ms =
       ms \<lparr> rasterizationSamples :=
              std_min (rasterizationSamples ms) VK_SAMPLE_COUNT_4_BIT \<rparr>"
    by (rule OptimizeMultisampleState_samples)
  have f: "rasterizationSamples (OptimizeMultisampleState ms) \<le>s 4"
    by (simp add: e VK_SAMPLE_COUNT_4_BIT_def std_min_4_signed_le)
  have f2: "rasterizationSamples ms \<le> 2147483647 \<longrightarrow>
        rasterizationSamples (OptimizeMultisampleState ms) = min (rasterizationSamples ms) 4
        \<and> rasterizationSamples (OptimizeMultisampleState ms) \<le> 4"
    by (simp add: e VK_SAMPLE_COUNT_4_BIT_def std_min_4_valid)
  have g: "rasterizationSamples ms = VK_SAMPLE_COUNT_1_BIT \<longrightarrow> OptimizeMultisampleState ms = ms"
    by (simp add: OptimizeMultisampleState_def)
  have h: "features_initialized w \<longrightarrow>
        fst (CreateGraphicsPipelines w nxt mem dev pc n infos al pp) =
        fst (nxt (fst (optimized_infos_loop mem n infos)) dev pc n
                 (snd (optimized_infos_loop mem n infos)) al pp)"
    by (simp add: CreateGraphicsPipelines_def Let_def split: prod.splits)
  from a b c d e f f2 g h show ?thesis by blast
qed

theorem graphics_transformation_scope_witness:
  "unat (2 :: u32) \<le> length [sample_create_info 16 32, sample_create_info 16 0]
   \<and> snd (optimized_infos_loop sample_memory 2
            [sample_create_info 16 32, sample_create_info 16 0])
       = [sample_create_info 16 32, sample_create_info 16 0]
   \<and> rasterization_at
       (fst (optimized_infos_loop sample_memory 2
               [sample_create_info 16 32, sample_create_info 16 0])) 16
       = sample_rasterization \<lparr> depthBiasEnable := 0, depthClampEnable := 0,
            rasterizerDiscardEnable := 0, cullMode := 2 \<rparr>
   \<and> multisample_at
       (fst (optimized_infos_loop sample_memory 2
               [sample_create_info 16 32, sample_create_info 16 0])) 32
       = sample_multisample \<lparr> rasterizationSamples := 4 \<rparr>
   \<and> rasterization_at
       (fst (optimized_infos_loop sample_memory 2
               [sample_create_info 16 32, sample_create_info 16 0])) 48
       = sample_rasterization
   \<and> rasterizationSamples sample_multisample \<le> 2147483647
   \<and> rasterizationSamples (OptimizeMultisampleState sample_multisample) = 4
   \<and> rasterizationSamples (sample_multisample \<lparr> rasterizationSamples := 1 \<rparr>)
       = VK_SAMPLE_COUNT_1_BIT
   \<and> OptimizeMultisampleState (sample_multisample \<lparr> rasterizationSamples := 1 \<rparr>)
       = sample_multisample \<lparr> rasterizationSamples := 1 \<rparr>
   \<and> OptimizeMultisampleState (sample_multisample \<lparr> rasterizationSamples := 2147483648 \<rparr>)
       = sample_multisample \<lparr> rasterizationSamples := 2147483648 \<rparr>
   \<and> features_initialized initialized_wrapper
   \<and> fst (snd (CreateGraphicsPipelines initialized_wrapper probe_next_graphics sample_memory
            2 0 2 [sample_create_info 16 32, sample_create_info 16 0] 0 [0, 0]))
       = [2, 2]"
proof -
  let ?infos = "[sample_create_info 16 32, sample_create_info 16 0]"
  let ?L = "optimized_infos_loop sample_memory 2 ?infos"
  have len: "unat (2 :: u32) \<le> length ?infos"
    by simp
  have tk: "take (unat (2 :: u32)) ?infos = ?infos"
    by simp
  have vals: "cullMode sample_rasterization = VK_CULL_MODE_NONE"
    "rasterizationSamples sample_multisample = 8"
    by (simp_all add: sample_rasterization_def sample_multisample_def VK_CULL_MODE_NONE_def)
  have ptrs: "pRasterizationState (sample_create_info r m) = r"
    "pMultisampleState (sample_create_info r m) = m" for r m
    by (simp_all add: sample_create_info_def)
  have mem: "rasterization_at sample_memory p = sample_rasterization"
    "multisample_at sample_memory p = sample_multisample" for p
    by (simp_all add: sample_memory_def)
  note t = graphics_transformation_scope [OF len, of sample_memory _ 32 sample_rasterization
                 sample_multisample initialized_wrapper probe_next_graphics 2 0 0 "[0, 0]"]
  note t1 = graphics_transformation_scope [OF len, of sample_memory 16 32 sample_rasterization
                 "sample_multisample \<lparr> rasterizationSamples := 1 \<rparr>"
                 initialized_wrapper probe_next_graphics 2 0 0 "[0, 0]"]
  note thi = graphics_transformation_scope [OF len, of sample_memory 16 32 sample_rasterization
                 "sample_multisample \<lparr> rasterizationSamples := 2147483648 \<rparr>"
                 initialized_wrapper probe_next_graphics 2 0 0 "[0, 0]"]
  have A: "snd ?L = ?infos"
    using t [of 16, THEN conjunct1] by (simp only: tk)
  have optr: "OptimizeRasterizationState sample_rasterization
               = sample_rasterization \<lparr> depthBiasEnable := 0, depthClampEnable := 0,
                   rasterizerDiscardEnable := 0, cullMode := 2 \<rparr>"
    using t [of 16, THEN conjunct2, THEN conjunct2, THEN conjunct2, THEN conjunct1]
    by (simp add: vals VK_FALSE_def VK_CULL_MODE_BACK_BIT_def)
  have optm: "OptimizeMultisampleState sample_multisample
               = sample_multisample \<lparr> rasterizationSamples := 4 \<rparr>"
    using t [of 16, THEN conjunct2, THEN conjunct2, THEN conjunct2, THEN conjunct2,
             THEN conjunct1]
    by (simp add: vals VK_SAMPLE_COUNT_4_BIT_def std_min_def word_sless_alt)
  have valid: "rasterizationSamples sample_multisample \<le> 2147483647"
    by (simp add: vals)
  have four: "rasterizationSamples (OptimizeMultisampleState sample_multisample) = 4"
    using t [of 16, THEN conjunct2, THEN conjunct2, THEN conjunct2, THEN conjunct2,
             THEN conjunct2, THEN conjunct2, THEN conjunct1] valid
    by (simp add: vals)
  have one: "rasterizationSamples (sample_multisample \<lparr> rasterizationSamples := 1 \<rparr>)
               = VK_SAMPLE_COUNT_1_BIT"
    by (simp add: VK_SAMPLE_COUNT_1_BIT_def)
  have stays: "OptimizeMultisampleState (sample_multisample \<lparr> rasterizationSamples := 1 \<rparr>)
               = sample_multisample \<lparr> rasterizationSamples := 1 \<rparr>"
    using t1 [THEN conjunct2, THEN conjunct2, THEN conjunct2, THEN conjunct2,
              THEN conjunct2, THEN conjunct2, THEN conjunct2, THEN conjunct1] one
    by blast
  have high: "OptimizeMultisampleState
                (sample_multisample \<lparr> rasterizationSamples := 2147483648 \<rparr>)
               = sample_multisample \<lparr> rasterizationSamples := 2147483648 \<rparr>"
    using thi [THEN conjunct2, THEN conjunct2, THEN conjunct2, THEN conjunct2, THEN conjunct1]
    by (simp add: VK_SAMPLE_COUNT_4_BIT_def std_min_def word_sless_alt)
  have B: "rasterization_at (fst ?L) 16 = OptimizeRasterizationState sample_rasterization"
    using t [of 16, THEN conjunct2, THEN conjunct1] by (simp add: ptrs mem)
  have C: "multisample_at (fst ?L) 32 = OptimizeMultisampleState sample_multisample"
    using t [of 16, THEN conjunct2, THEN conjunct2, THEN conjunct1] by (simp add: ptrs mem)
  have D: "rasterization_at (fst ?L) 48 = sample_rasterization"
    using t [of 48, THEN conjunct2, THEN conjunct1] by (simp add: ptrs mem)
  have out: "fst (snd (CreateGraphicsPipelines initialized_wrapper probe_next_graphics
               sample_memory 2 0 2 ?infos 0 [0, 0]))
             = map (\<lambda>i. ucast (cullMode (rasterization_at (fst ?L) (pRasterizationState i))))
                 (snd ?L)"
    by (simp add: CreateGraphicsPipelines_def probe_next_graphics_def initialized_wrapper_simps
          split: prod.splits)
  have E: "fst (snd (CreateGraphicsPipelines initialized_wrapper probe_next_graphics
               sample_memory 2 0 2 ?infos 0 [0, 0])) = [2, 2]"
    unfolding out A by (simp add: ptrs B optr)
  show ?thesis
    using len A B C D E valid four one stays high
    by (simp only: optr optm initialized_wrapper_simps simp_thms)
qed

subsection \<open>Memory allocation\<close>

lemma and_mask_round_nat:
  assumes "x < 2 ^ 32"
  shows "(x::nat) AND 4294967232 = (x div 64) * 64"
proof -
  have m: "(4294967232::nat) = push_bit 6 (mask 26)"
    by (simp add: mask_eq_exp_minus_1 push_bit_eq_mult)
  have d: "drop_bit 6 x < 2 ^ 26"
    using assms by (simp add: drop_bit_eq_div less_mult_imp_div_less)
  have "x AND push_bit 6 (mask 26) = push_bit 6 (drop_bit 6 x AND mask 26)"
    by (rule bit_eqI) (auto simp: bit_and_iff bit_push_bit_iff bit_drop_bit_eq)
  also have "drop_bit 6 x AND mask 26 = drop_bit 6 x"
    using d by (simp add: take_bit_eq_mask [symmetric] take_bit_nat_eq_self)
  finally show ?thesis
    by (simp add: m push_bit_eq_mult drop_bit_eq_div)
qed

text \<open>
  Below 4 GiB the allocation size is rounded up to the next multiple of 64 and the
  memory-type index is kept.
\<close>

lemma OptimizeMemoryAllocation_rounds_below_4GiB:
  assumes "allocationSize info \<le> 4294967232"
    and "device_context w = Some ctx"
  shows "\<exists>info'. OptimizeMemoryAllocation w info = Inr info'
           \<and> unat (allocationSize info') = ((unat (allocationSize info) + 63) div 64) * 64
           \<and> memoryTypeIndex info' = memoryTypeIndex info"
proof -
  let ?S = "allocationSize info"
  have s: "unat ?S \<le> 4294967232"
    using assms(1) by (simp add: word_le_nat_alt)
  have x: "unat (?S + 63) = unat ?S + 63"
    using s by (simp add: unat_word_ariths)
  have "unat ((?S + 63) AND 4294967232) = unat (?S + 63) AND 4294967232"
    by (simp add: unsigned_and_eq)
  also have "\<dots> = ((unat ?S + 63) div 64) * 64"
    using s by (simp add: x and_mask_round_nat)
  finally have r: "unat ((?S + 63) AND 4294967232) = ((unat ?S + 63) div 64) * 64" .
  have r': "unat ((63 + ?S) AND 4294967232) = ((unat ?S + 63) div 64) * 64"
    using r by (simp only: add.commute [of 63 ?S])
  show ?thesis
    using r' assms(2)
    by (simp add: OptimizeMemoryAllocation_def kCacheLineSize_def Let_def)
qed

text \<open>
  C3, at the input where the code departs from it. The mask
  \<^verbatim>\<open>~(kCacheLineSize - 1)\<close> is computed in 32 bits and widened with zeros, so the
  upper 32 bits of the size are cleared: a request of exactly 4 GiB is handed on with
  size 0. The memory-type index is kept.
\<close>

theorem allocation_size_truncated:
  "AllocateMemory initialized_wrapper nxt dev (sample_allocate_info 4294967296 idx) al pm
     = Inr (case nxt dev (sample_allocate_info 0 idx) al pm of
              (result, m) \<Rightarrow> (result, m, initialized_wrapper))"
  by (simp add: AllocateMemory_def OptimizeMemoryAllocation_def initialized_wrapper_def
        InitializeDeviceContext_def g_wrapper_def sample_allocate_info_def kCacheLineSize_def
        Let_def split: prod.splits)

subsection \<open>Queue submission\<close>

text \<open>
  C7. Whatever the state of the wrapper, and so whatever the classification computes,
  the next layer is called with the queue, the count, the array of submissions and the
  fence of the original call, its result is returned, and the wrapper is unchanged.
\<close>

theorem queue_submit_forwards_verbatim:
  "QueueSubmit w nxt queue submitCount pSubmits fence
     = (nxt queue submitCount pSubmits fence, w)"
  by (simp add: QueueSubmit_def)

theorem queue_submit_forwards_verbatim_witness:
  "OptimizeQueueSubmission [sample_submit 3, sample_submit 1, sample_submit 2] 3
     = ([0], [2], [1])
   \<and> QueueSubmit initialized_wrapper probe_next_submit 9 3
        [sample_submit 3, sample_submit 1, sample_submit 2] 7
     = (10, initialized_wrapper)
   \<and> QueueSubmit g_wrapper probe_next_submit 9 3
        [sample_submit 3, sample_submit 1, sample_submit 2] 7
     = (10, g_wrapper)"
  using queue_submit_forwards_verbatim [of initialized_wrapper probe_next_submit 9 3
          "[sample_submit 3, sample_submit 1, sample_submit 2]" 7]
        queue_submit_forwards_verbatim [of g_wrapper probe_next_submit 9 3
          "[sample_submit 3, sample_submit 1, sample_submit 2]" 7]
  by (simp add: OptimizeQueueSubmission_def IsLikelyComputeWorkload_def
        IsLikelyTransferWorkload_def sample_submit_def probe_next_submit_def upt_0_3)

end
